theory Spec2Isabelle
  imports Main "HOL-Library.Sublist" "HOL-Library.Char_ord"
begin

section \<open>The schema declared in types_openshiftcontrolplane.go\<close>

text \<open>
  The source file declares Go structs whose fields carry a JSON tag and validation
  markers (comment lines starting with \<open>+\<close>).  The markers are the program: the
  schema generator turns them into the rules under which a serialized object is
  accepted or rejected.  A field declaration is modelled by its JSON name, the
  \<open>omitempty\<close> option of its tag and its markers, each marker a pair of its name and
  its argument text (quotes dropped).
\<close>

subsection \<open>Field declarations\<close>

type_synonym marker = "string \<times> string"

record field_decl =
  json_name :: string
  omitempty :: bool
  markers :: "marker list"

definition has_marker :: "string \<Rightarrow> field_decl \<Rightarrow> bool" where
  "has_marker n f = (n \<in> set (map fst (markers f)))"

text \<open>
  Whether a field without an explicit marker is required is a package-level setting
  (the package marker \<open>+kubebuilder:validation:Optional\<close>, written in the package's
  doc.go).  That file is not among the sources, so the setting is a parameter.
\<close>

datatype default_mode = RequiredByDefault | OptionalByDefault

text \<open>
  The generator's rule for listing a field under \<open>required\<close>: an explicit marker
  decides; without one, the field is required exactly when the package default is
  "required" and the JSON tag has no \<open>omitempty\<close>.  A marker whose name the generator
  does not know has no effect.
\<close>

definition is_required :: "default_mode \<Rightarrow> field_decl \<Rightarrow> bool" where
  "is_required m f =
     (if has_marker ''kubebuilder:validation:Optional'' f then False
      else if has_marker ''kubebuilder:validation:Required'' f then True
      else if has_marker ''optional'' f then False
      else if has_marker ''required'' f then True
      else (m = RequiredByDefault \<and> \<not> omitempty f))"

text \<open>OpenShiftControlPlane (lines 32-46).\<close>

definition fd_spec :: field_decl where
  "fd_spec = \<lparr>json_name = ''spec'', omitempty = False,
     markers = [(''kubebuilder:validation:Required'', '''')]\<rparr>"

definition fd_status :: field_decl where
  "fd_status = \<lparr>json_name = ''status'', omitempty = True,
     markers = [(''optional'', '''')]\<rparr>"

text \<open>OpenShiftControlPlaneSpec (lines 49-74).  Line 54 reads
  \<open>+kubeubilder:validation:Required\<close>; the marker is recorded as it is spelled.\<close>

definition fd_machineTemplate :: field_decl where
  "fd_machineTemplate = \<lparr>json_name = ''machineTemplate'', omitempty = False,
     markers = [(''kubebuilder:validation:XValidation'',
                   ''rule=self == oldSelf,message=machineTemplate is immutable''),
                (''kubeubilder:validation:Required'', '''')]\<rparr>"

definition fd_installStateSecretRef :: field_decl where
  "fd_installStateSecretRef = \<lparr>json_name = ''installStateSecretRef'', omitempty = False,
     markers = [(''kubebuilder:validation:Required'', '''')]\<rparr>"

definition fd_manifestsSelector :: field_decl where
  "fd_manifestsSelector = \<lparr>json_name = ''manifestsSelector'', omitempty = True,
     markers = [(''optional'', '''')]\<rparr>"

text \<open>OpenShiftControlPlaneMachineTemplate (lines 77-105).\<close>

definition fd_metadata :: field_decl where
  "fd_metadata = \<lparr>json_name = ''metadata'', omitempty = True,
     markers = [(''optional'', '''')]\<rparr>"

definition fd_infrastructureRef :: field_decl where
  "fd_infrastructureRef = \<lparr>json_name = ''infrastructureRef'', omitempty = False,
     markers = [(''kubebuilder:validation:Required'', '''')]\<rparr>"

definition fd_nodeDrainTimeout :: field_decl where
  "fd_nodeDrainTimeout = \<lparr>json_name = ''nodeDrainTimeout'', omitempty = True,
     markers = [(''optional'', '''')]\<rparr>"

definition fd_nodeVolumeDetachTimeout :: field_decl where
  "fd_nodeVolumeDetachTimeout = \<lparr>json_name = ''nodeVolumeDetachTimeout'', omitempty = True,
     markers = [(''optional'', '''')]\<rparr>"

definition fd_nodeDeletionTimeout :: field_decl where
  "fd_nodeDeletionTimeout = \<lparr>json_name = ''nodeDeletionTimeout'', omitempty = True,
     markers = [(''optional'', '''')]\<rparr>"

text \<open>InfrastructureReference (lines 128-147).\<close>

definition fd_kind :: field_decl where
  "fd_kind = \<lparr>json_name = ''kind'', omitempty = False,
     markers = [(''kubebuilder:validation:Required'', '''')]\<rparr>"

definition fd_namespace :: field_decl where
  "fd_namespace = \<lparr>json_name = ''namespace'', omitempty = False,
     markers = [(''kubebuilder:validation:Required'', '''')]\<rparr>"

definition fd_name :: field_decl where
  "fd_name = \<lparr>json_name = ''name'', omitempty = False,
     markers = [(''kubebuilder:validation:Required'', '''')]\<rparr>"

definition fd_apiVersion :: field_decl where
  "fd_apiVersion = \<lparr>json_name = ''apiVersion'', omitempty = False,
     markers = [(''kubebuilder:validation:Required'', '''')]\<rparr>"

text \<open>OpenShiftControlPlaneSecretRef (lines 150-158).\<close>

definition fd_secret_name :: field_decl where
  "fd_secret_name = \<lparr>json_name = ''name'', omitempty = False,
     markers = [(''kubebuilder:validation:Pattern'', ''[a-z0-9]([-.a-z0-9]{,251}[a-z0-9])?''),
                (''kubebuilder:validation:MaxLength'', ''253''),
                (''kubebuilder:validation:Required'', '''')]\<rparr>"

subsection \<open>Serialized objects\<close>

text \<open>
  Validation runs on the serialized object, where every key is present or absent.
  The records below follow the JSON names of the structs; a key that is absent is
  \<open>None\<close>.  A duration is serialized as a string (\<open>0s\<close> is zero), a Go map as a JSON
  object.
\<close>

record ObjectMeta_json =
  labels :: "(string \<rightharpoonup> string) option"
  annotations :: "(string \<rightharpoonup> string) option"

record InfrastructureReference_json =
  ref_kind :: "string option"
  ref_namespace :: "string option"
  ref_name :: "string option"
  ref_apiVersion :: "string option"

record OpenShiftControlPlaneMachineTemplate_json =
  metadata :: "ObjectMeta_json option"
  infrastructureRef :: "InfrastructureReference_json option"
  nodeDrainTimeout :: "string option"
  nodeVolumeDetachTimeout :: "string option"
  nodeDeletionTimeout :: "string option"

record OpenShiftControlPlaneSecretRef_json =
  secret_name :: "string option"

text \<open>metav1.LabelSelector is declared in k8s.io/apimachinery: a map of labels and a
  list of requirements (key, operator, values), both optional.\<close>

record LabelSelectorRequirement_json =
  req_key :: "string option"
  req_operator :: "string option"
  req_values :: "string list option"

record LabelSelector_json =
  matchLabels :: "(string \<rightharpoonup> string) option"
  matchExpressions :: "LabelSelectorRequirement_json list option"

record OpenShiftControlPlaneSpec_json =
  machineTemplate :: "OpenShiftControlPlaneMachineTemplate_json option"
  installStateSecretRef :: "OpenShiftControlPlaneSecretRef_json option"
  manifestsSelector :: "LabelSelector_json option"

record OpenShiftControlPlane_json =
  meta_namespace :: string
  meta_name :: string
  spec :: "OpenShiftControlPlaneSpec_json option"

subsection \<open>String patterns\<close>

text \<open>
  The Pattern marker of the secret name is the text
  \<open>[a-z0-9]([-.a-z0-9]{,251}[a-z0-9])?\<close>.  The API server compiles it with Go's
  regexp package and tests it with MatchString, which looks for a match anywhere in
  the string: the pattern carries no \<open>^\<close> and no \<open>$\<close>.  Go reads a brace that does not
  open a repetition \<open>{n}\<close>, \<open>{n,}\<close> or \<open>{n,m}\<close> as a literal character, so \<open>{,251}\<close> is
  the six-character string itself.  The pattern uses character classes, literals,
  concatenation and the optional group only.
\<close>

datatype re = Class "char \<Rightarrow> bool" | Str string | Cat re re | Opt re

fun matches :: "re \<Rightarrow> string \<Rightarrow> bool" where
  "matches (Class p) s = (case s of [c] \<Rightarrow> p c | _ \<Rightarrow> False)"
| "matches (Str w) s = (s = w)"
| "matches (Cat r1 r2) s =
     list_ex (\<lambda>i. matches r1 (take i s) \<and> matches r2 (drop i s)) [0..<Suc (length s)]"
| "matches (Opt r) s = (s = [] \<or> matches r s)"

definition MatchString :: "re \<Rightarrow> string \<Rightarrow> bool" where
  "MatchString r s = list_ex (matches r) (sublists s)"

definition lower_alnum :: "char \<Rightarrow> bool" where
  "lower_alnum c = ((CHR ''a'' \<le> c \<and> c \<le> CHR ''z'') \<or> (CHR ''0'' \<le> c \<and> c \<le> CHR ''9''))"

definition name_char :: "char \<Rightarrow> bool" where
  "name_char c = (c = CHR ''-'' \<or> c = CHR ''.'' \<or> lower_alnum c)"

definition name_pattern_tail :: re where
  "name_pattern_tail = Cat (Class name_char) (Cat (Str ''{,251}'') (Class lower_alnum))"

definition name_pattern :: re where
  "name_pattern = Cat (Class lower_alnum) (Opt name_pattern_tail)"

subsection \<open>Structural validation\<close>

text \<open>A validation failure names the offending field and the violated rule; an object
  is accepted when the list of failures is empty.\<close>

type_synonym ValidationError = "string \<times> string"

definition check_required :: "default_mode \<Rightarrow> field_decl \<Rightarrow> bool \<Rightarrow> ValidationError list" where
  "check_required m f present =
     (if is_required m f \<and> \<not> present then [(json_name f, ''Required'')] else [])"

definition validate_secret_name :: "string \<Rightarrow> ValidationError list" where
  "validate_secret_name n =
     (if 253 < length n then [(''name'', ''MaxLength'')] else []) @
     (if MatchString name_pattern n then [] else [(''name'', ''Pattern'')])"

definition validate_SecretRef ::
  "default_mode \<Rightarrow> OpenShiftControlPlaneSecretRef_json \<Rightarrow> ValidationError list" where
  "validate_SecretRef m r =
     check_required m fd_secret_name (secret_name r \<noteq> None) @
     (case secret_name r of None \<Rightarrow> [] | Some n \<Rightarrow> validate_secret_name n)"

definition validate_InfrastructureReference ::
  "default_mode \<Rightarrow> InfrastructureReference_json \<Rightarrow> ValidationError list" where
  "validate_InfrastructureReference m r =
     check_required m fd_kind (ref_kind r \<noteq> None) @
     check_required m fd_namespace (ref_namespace r \<noteq> None) @
     check_required m fd_name (ref_name r \<noteq> None) @
     check_required m fd_apiVersion (ref_apiVersion r \<noteq> None)"

definition validate_MachineTemplate ::
  "default_mode \<Rightarrow> OpenShiftControlPlaneMachineTemplate_json \<Rightarrow> ValidationError list" where
  "validate_MachineTemplate m t =
     check_required m fd_metadata (metadata t \<noteq> None) @
     check_required m fd_infrastructureRef (infrastructureRef t \<noteq> None) @
     (case infrastructureRef t of None \<Rightarrow> [] | Some r \<Rightarrow> validate_InfrastructureReference m r) @
     check_required m fd_nodeDrainTimeout (nodeDrainTimeout t \<noteq> None) @
     check_required m fd_nodeVolumeDetachTimeout (nodeVolumeDetachTimeout t \<noteq> None) @
     check_required m fd_nodeDeletionTimeout (nodeDeletionTimeout t \<noteq> None)"

definition validate_Spec ::
  "default_mode \<Rightarrow> OpenShiftControlPlaneSpec_json \<Rightarrow> ValidationError list" where
  "validate_Spec m s =
     check_required m fd_machineTemplate (machineTemplate s \<noteq> None) @
     (case machineTemplate s of None \<Rightarrow> [] | Some t \<Rightarrow> validate_MachineTemplate m t) @
     check_required m fd_installStateSecretRef (installStateSecretRef s \<noteq> None) @
     (case installStateSecretRef s of None \<Rightarrow> [] | Some r \<Rightarrow> validate_SecretRef m r) @
     check_required m fd_manifestsSelector (manifestsSelector s \<noteq> None)"

definition validate_OpenShiftControlPlane ::
  "default_mode \<Rightarrow> OpenShiftControlPlane_json \<Rightarrow> ValidationError list" where
  "validate_OpenShiftControlPlane m cp =
     check_required m fd_spec (spec cp \<noteq> None) @
     (case spec cp of None \<Rightarrow> [] | Some s \<Rightarrow> validate_Spec m s)"

subsection \<open>The immutability rule on machineTemplate\<close>

text \<open>
  Line 53 attaches the rule \<open>self == oldSelf\<close> with the message
  \<open>machineTemplate is immutable\<close> to the field.  A rule that mentions \<open>oldSelf\<close> is
  evaluated on an update only, and only when the field has a value both in the stored
  object and in the proposed one; \<open>==\<close> is equality of the two serialized values, key
  by key.
\<close>

definition machineTemplate_immutable ::
  "OpenShiftControlPlaneMachineTemplate_json option \<Rightarrow>
   OpenShiftControlPlaneMachineTemplate_json option \<Rightarrow> ValidationError list" where
  "machineTemplate_immutable oldSelf self =
     (case oldSelf of
        None \<Rightarrow> []
      | Some old \<Rightarrow>
          (case self of
             None \<Rightarrow> []
           | Some new \<Rightarrow>
               if new = old then []
               else [(''machineTemplate'', ''machineTemplate is immutable'')]))"

text \<open>A write of the Spec: the structural validation of the proposed Spec, and on an
  update (a last accepted Spec exists) the transition rule.\<close>

definition validate_update ::
  "default_mode \<Rightarrow> OpenShiftControlPlaneSpec_json option \<Rightarrow>
   OpenShiftControlPlaneSpec_json \<Rightarrow> ValidationError list" where
  "validate_update m lastAccepted proposed =
     validate_Spec m proposed @
     (case lastAccepted of
        None \<Rightarrow> []
      | Some old \<Rightarrow> machineTemplate_immutable (machineTemplate old) (machineTemplate proposed))"

subsection \<open>Sample objects\<close>

text \<open>Concrete serialized objects at which the theorems below are instantiated.\<close>

definition sample_ref :: InfrastructureReference_json where
  "sample_ref = \<lparr>ref_kind = Some ''AWSMachineTemplate'', ref_namespace = Some ''openshift-cluster-api'',
     ref_name = Some ''control-plane'', ref_apiVersion = Some ''infrastructure.cluster.x-k8s.io/v1beta2''\<rparr>"

definition sample_template :: OpenShiftControlPlaneMachineTemplate_json where
  "sample_template = \<lparr>metadata = None, infrastructureRef = Some sample_ref,
     nodeDrainTimeout = None, nodeVolumeDetachTimeout = None, nodeDeletionTimeout = None\<rparr>"

definition sample_spec :: OpenShiftControlPlaneSpec_json where
  "sample_spec = \<lparr>machineTemplate = Some sample_template,
     installStateSecretRef = Some \<lparr>secret_name = Some ''install-state''\<rparr>,
     manifestsSelector = None\<rparr>"

definition sample_cp :: OpenShiftControlPlane_json where
  "sample_cp = \<lparr>meta_namespace = ''tenant-a'', meta_name = ''cluster'', spec = Some sample_spec\<rparr>"

section \<open>The typed structs\<close>

text \<open>
  Go code sees the structs of the source file, not the serialized object.  A pointer
  field is \<open>None\<close> when nil, a map is \<open>None\<close> when nil; a field of struct or string
  type always has a value.  metav1.Duration wraps an int64 count of nanoseconds.
\<close>

type_synonym Duration = int

record ObjectMeta =
  Labels :: "(string \<rightharpoonup> string) option"
  Annotations :: "(string \<rightharpoonup> string) option"

record InfrastructureReference =
  Kind :: string
  Namespace :: string
  Name :: string
  APIVersion :: string

record OpenShiftControlPlaneMachineTemplate =
  Metadata :: ObjectMeta
  InfrastructureRef :: InfrastructureReference
  NodeDrainTimeout :: "Duration option"
  NodeVolumeDetachTimeout :: "Duration option"
  NodeDeletionTimeout :: "Duration option"

record OpenShiftControlPlaneSecretRef =
  SecretName :: string

record LabelSelectorRequirement =
  Key :: string
  Operator :: string
  Values :: "string list option"

record LabelSelector =
  MatchLabels :: "(string \<rightharpoonup> string) option"
  MatchExpressions :: "LabelSelectorRequirement list option"

record OpenShiftControlPlaneSpec =
  MachineTemplate :: OpenShiftControlPlaneMachineTemplate
  InstallStateSecretRef :: OpenShiftControlPlaneSecretRef
  ManifestsSelector :: LabelSelector

subsection \<open>Decoding a serialized Spec into the struct\<close>

text \<open>
  Decoding fills a zero-valued struct: a key that is absent leaves the field at its zero
  value (the empty string, the struct of zero values, nil).  The parser of duration
  strings belongs to the Go library and is a parameter; a string it refuses makes the
  decoding fail.
\<close>

definition decode_string :: "string option \<Rightarrow> string" where
  "decode_string j = (case j of None \<Rightarrow> [] | Some s \<Rightarrow> s)"

definition decode_Duration ::
  "(string \<Rightarrow> Duration option) \<Rightarrow> string option \<Rightarrow> Duration option option" where
  "decode_Duration parseDuration j =
     (case j of
        None \<Rightarrow> Some None
      | Some s \<Rightarrow> (case parseDuration s of None \<Rightarrow> None | Some d \<Rightarrow> Some (Some d)))"

definition decode_ObjectMeta :: "ObjectMeta_json option \<Rightarrow> ObjectMeta" where
  "decode_ObjectMeta j =
     (case j of
        None \<Rightarrow> \<lparr>Labels = None, Annotations = None\<rparr>
      | Some x \<Rightarrow> \<lparr>Labels = labels x, Annotations = annotations x\<rparr>)"

definition decode_InfrastructureReference ::
  "InfrastructureReference_json option \<Rightarrow> InfrastructureReference" where
  "decode_InfrastructureReference j =
     (case j of
        None \<Rightarrow> \<lparr>Kind = [], Namespace = [], Name = [], APIVersion = []\<rparr>
      | Some x \<Rightarrow> \<lparr>Kind = decode_string (ref_kind x), Namespace = decode_string (ref_namespace x),
                   Name = decode_string (ref_name x), APIVersion = decode_string (ref_apiVersion x)\<rparr>)"

definition decode_MachineTemplate ::
  "(string \<Rightarrow> Duration option) \<Rightarrow> OpenShiftControlPlaneMachineTemplate_json option \<Rightarrow>
   OpenShiftControlPlaneMachineTemplate option" where
  "decode_MachineTemplate parseDuration j =
     (case j of
        None \<Rightarrow> Some \<lparr>Metadata = decode_ObjectMeta None,
                       InfrastructureRef = decode_InfrastructureReference None,
                       NodeDrainTimeout = None, NodeVolumeDetachTimeout = None,
                       NodeDeletionTimeout = None\<rparr>
      | Some x \<Rightarrow>
          (case decode_Duration parseDuration (nodeDrainTimeout x) of
             None \<Rightarrow> None
           | Some drain \<Rightarrow>
               (case decode_Duration parseDuration (nodeVolumeDetachTimeout x) of
                  None \<Rightarrow> None
                | Some detach \<Rightarrow>
                    (case decode_Duration parseDuration (nodeDeletionTimeout x) of
                       None \<Rightarrow> None
                     | Some deletion \<Rightarrow>
                         Some \<lparr>Metadata = decode_ObjectMeta (metadata x),
                               InfrastructureRef = decode_InfrastructureReference (infrastructureRef x),
                               NodeDrainTimeout = drain, NodeVolumeDetachTimeout = detach,
                               NodeDeletionTimeout = deletion\<rparr>))))"

definition decode_SecretRef :: "OpenShiftControlPlaneSecretRef_json option \<Rightarrow> OpenShiftControlPlaneSecretRef" where
  "decode_SecretRef j =
     (case j of None \<Rightarrow> \<lparr>SecretName = []\<rparr> | Some x \<Rightarrow> \<lparr>SecretName = decode_string (secret_name x)\<rparr>)"

definition decode_Requirement :: "LabelSelectorRequirement_json \<Rightarrow> LabelSelectorRequirement" where
  "decode_Requirement x =
     \<lparr>Key = decode_string (req_key x), Operator = decode_string (req_operator x),
      Values = req_values x\<rparr>"

definition decode_LabelSelector :: "LabelSelector_json option \<Rightarrow> LabelSelector" where
  "decode_LabelSelector j =
     (case j of
        None \<Rightarrow> \<lparr>MatchLabels = None, MatchExpressions = None\<rparr>
      | Some x \<Rightarrow> \<lparr>MatchLabels = matchLabels x,
                   MatchExpressions = map_option (map decode_Requirement) (matchExpressions x)\<rparr>)"

definition decode_Spec ::
  "(string \<Rightarrow> Duration option) \<Rightarrow> OpenShiftControlPlaneSpec_json \<Rightarrow> OpenShiftControlPlaneSpec option" where
  "decode_Spec parseDuration j =
     (case decode_MachineTemplate parseDuration (machineTemplate j) of
        None \<Rightarrow> None
      | Some t \<Rightarrow>
          Some \<lparr>MachineTemplate = t,
                InstallStateSecretRef = decode_SecretRef (installStateSecretRef j),
                ManifestsSelector = decode_LabelSelector (manifestsSelector j)\<rparr>)"

text \<open>The selector written as the empty JSON object: no key present.\<close>

definition empty_selector :: LabelSelector_json where
  "empty_selector = \<lparr>matchLabels = None, matchExpressions = None\<rparr>"

text \<open>A duration parser for the sample objects: it knows the two strings used there.\<close>

definition sample_parseDuration :: "string \<Rightarrow> Duration option" where
  "sample_parseDuration s =
     (if s = ''0s'' then Some 0 else if s = ''10s'' then Some 10000000000 else None)"

section \<open>The Status and its conditions\<close>

text \<open>
  OpenShiftControlPlaneStatus (lines 161-183) holds the list of conditions, declared a
  map keyed by \<open>type\<close> (listType=map, listMapKey=type), and the two booleans.
  metav1.Condition is declared in k8s.io/apimachinery: type, status, observed
  generation, last transition time, reason and message.  Time is a count of seconds.
\<close>

datatype ConditionStatus = ConditionTrue | ConditionFalse | ConditionUnknown

record Condition =
  cond_type :: string
  cond_status :: ConditionStatus
  observedGeneration :: int
  lastTransitionTime :: nat
  cond_reason :: string
  cond_message :: string

record OpenShiftControlPlaneStatus =
  Conditions :: "Condition list"
  Initialized :: bool
  Ready :: bool

text \<open>
  Modelled from the spec: the Condition Reporter.  The source declares the field
  Conditions only; no function of the source writes it.  The definition follows section
  4.4 of the spec: \<open>setCondition(type, status, reason, message, observedGeneration)\<close>
  upserts by type; an existing condition of the type with the same status has its
  observed generation, message and reason refreshed and keeps its transition time; with a
  different status the transition time becomes the current time.  The current time and
  the list are explicit arguments.
\<close>

fun setCondition ::
  "nat \<Rightarrow> string \<Rightarrow> ConditionStatus \<Rightarrow> string \<Rightarrow> string \<Rightarrow> int \<Rightarrow> Condition list \<Rightarrow> Condition list" where
  "setCondition now ty st rs msg gen [] =
     [\<lparr>cond_type = ty, cond_status = st, observedGeneration = gen, lastTransitionTime = now,
       cond_reason = rs, cond_message = msg\<rparr>]"
| "setCondition now ty st rs msg gen (c # cs) =
     (if cond_type c = ty then
        (if cond_status c = st
         then c\<lparr>observedGeneration := gen, cond_message := msg, cond_reason := rs\<rparr>
         else c\<lparr>cond_status := st, lastTransitionTime := now,
                observedGeneration := gen, cond_message := msg, cond_reason := rs\<rparr>) # cs
      else c # setCondition now ty st rs msg gen cs)"

definition findCondition :: "string \<Rightarrow> Condition list \<Rightarrow> Condition option" where
  "findCondition ty cs = find (\<lambda>c. cond_type c = ty) cs"

definition sample_conditions :: "Condition list" where
  "sample_conditions =
     [\<lparr>cond_type = ''MachinesProvisioned'', cond_status = ConditionFalse, observedGeneration = 1,
       lastTransitionTime = 100, cond_reason = ''Waiting'', cond_message = ''no machine yet''\<rparr>,
      \<lparr>cond_type = ''InstallStateResolved'', cond_status = ConditionTrue, observedGeneration = 1,
       lastTransitionTime = 90, cond_reason = ''Found'', cond_message = ''secret read''\<rparr>]"

text \<open>The namespace named by the infrastructure reference of a resource, when there is one.\<close>

definition infrastructureRef_namespace :: "OpenShiftControlPlane_json \<Rightarrow> string option" where
  "infrastructureRef_namespace cp =
     Option.bind (spec cp) (\<lambda>s. Option.bind (machineTemplate s)
       (\<lambda>t. Option.bind (infrastructureRef t) ref_namespace))"

section \<open>Properties\<close>

subsection \<open>Unfolding the schema\<close>

lemmas field_defs =
  fd_spec_def fd_status_def fd_machineTemplate_def fd_installStateSecretRef_def
  fd_manifestsSelector_def fd_metadata_def fd_infrastructureRef_def fd_nodeDrainTimeout_def
  fd_nodeVolumeDetachTimeout_def fd_nodeDeletionTimeout_def fd_kind_def fd_namespace_def
  fd_name_def fd_apiVersion_def fd_secret_name_def

lemmas validate_defs =
  validate_OpenShiftControlPlane_def validate_Spec_def validate_MachineTemplate_def
  validate_InfrastructureReference_def validate_SecretRef_def check_required_def
  is_required_def has_marker_def

lemmas sample_defs = sample_cp_def sample_spec_def sample_template_def sample_ref_def

subsection \<open>The pattern of the secret name\<close>

lemma matches_Class_iff: "matches (Class p) s \<longleftrightarrow> (\<exists>c. s = [c] \<and> p c)"
  by (cases s) (auto split: list.splits)

lemma matches_Cat_iff:
  "matches (Cat r1 r2) s \<longleftrightarrow>
     (\<exists>i\<le>length s. matches r1 (take i s) \<and> matches r2 (drop i s))"
proof -
  have "set [0..<Suc (length s)] = {i. i \<le> length s}" by auto
  then show ?thesis by (simp only: matches.simps list_ex_iff Bex_def mem_Collect_eq)
qed

lemma matches_head:
  assumes "matches (Cat (Class p) (Opt r)) u"
  shows "\<exists>c\<in>set u. p c"
proof -
  from assms obtain i where "matches (Class p) (take i u)"
    unfolding matches_Cat_iff by blast
  then obtain c where c: "take i u = [c]" "p c"
    unfolding matches_Class_iff by blast
  then have "c \<in> set (take i u)" by simp
  then have "c \<in> set u" by (rule in_set_takeD)
  with c(2) show ?thesis by blast
qed

lemma matches_single: "p c \<Longrightarrow> matches (Cat (Class p) (Opt r)) [c]"
  unfolding matches_Cat_iff by (rule exI[of _ 1]) simp

lemma MatchString_iff: "MatchString r s \<longleftrightarrow> (\<exists>u. sublist u s \<and> matches r u)"
  by (simp add: MatchString_def list_ex_iff Bex_def)

text \<open>
  An unanchored search for a pattern that begins with a character class and goes on with
  an optional group succeeds exactly on the strings that hold a character of the class,
  whatever the optional group is.  The result below therefore does not depend on how
  \<open>{,251}\<close> is read.
\<close>

lemma MatchString_head_iff:
  "MatchString (Cat (Class p) (Opt r)) s \<longleftrightarrow> (\<exists>c\<in>set s. p c)"
proof
  assume "MatchString (Cat (Class p) (Opt r)) s"
  then obtain u where u: "sublist u s" "matches (Cat (Class p) (Opt r)) u"
    unfolding MatchString_iff by blast
  from matches_head[OF u(2)] obtain c where c: "c \<in> set u" "p c" by blast
  from u(1) have "set u \<subseteq> set s" by (rule set_mono_sublist)
  with c show "\<exists>c\<in>set s. p c" by blast
next
  assume "\<exists>c\<in>set s. p c"
  then obtain c where c: "c \<in> set s" "p c" by blast
  from c(1) obtain xs ys where "s = xs @ c # ys" by (auto simp: in_set_conv_decomp)
  then have "s = xs @ [c] @ ys" by simp
  then have "sublist [c] s" unfolding sublist_def by (intro exI)
  moreover have "matches (Cat (Class p) (Opt r)) [c]" using c(2) by (rule matches_single)
  ultimately show "MatchString (Cat (Class p) (Opt r)) s"
    unfolding MatchString_iff by (intro exI conjI)
qed

text \<open>What the two markers of the name accept: every string of at most 253 characters
  that holds a lowercase letter or a digit somewhere.\<close>

lemma validate_secret_name_iff:
  "validate_secret_name n = [] \<longleftrightarrow> length n \<le> 253 \<and> (\<exists>c\<in>set n. lower_alnum c)"
  by (simp add: validate_secret_name_def name_pattern_def MatchString_head_iff)

text \<open>
  C5. The claim: a name is accepted if and only if it has at most 253 characters, all of
  them lowercase alphanumeric, \<open>-\<close> or \<open>.\<close>, the first and the last alphanumeric.  The
  schema accepts names the rule excludes: \<open>-a-\<close> starts and ends with a hyphen,
  \<open>Not_A_Subdomain!\<close> holds capitals, underscores and an exclamation mark.  A name
  without any lowercase letter or digit (\<open>---\<close>) is refused.
\<close>

theorem secret_name_accepts_malformed:
  "validate_secret_name ''-a-'' = []
   \<and> validate_SecretRef m \<lparr>secret_name = Some ''-a-''\<rparr> = []
   \<and> validate_secret_name ''---'' = [(''name'', ''Pattern'')]"
  by (simp add: validate_SecretRef_def check_required_def validate_secret_name_def
      MatchString_def name_pattern_def name_pattern_tail_def lower_alnum_def name_char_def)

lemma secret_name_accepts_capitals: "validate_secret_name ''Not_A_Subdomain!'' = []"
  by (simp add: validate_secret_name_iff lower_alnum_def)

subsection \<open>Required fields of the Spec\<close>

text \<open>The sample Spec and the sample resource pass the structural validation under
  either package default.\<close>

lemma sample_spec_valid: "validate_Spec m sample_spec = []"
  by (simp add: validate_defs field_defs sample_defs validate_secret_name_iff lower_alnum_def)

lemma sample_cp_valid: "validate_OpenShiftControlPlane m sample_cp = []"
  using sample_spec_valid [of m] by (simp add: validate_OpenShiftControlPlane_def
      check_required_def sample_cp_def)

text \<open>
  C6. The claim: both machineTemplate and installStateSecretRef are required, and a Spec
  without either is rejected.  installStateSecretRef is required under either package
  default (its marker, line 64, is spelled correctly).  The marker of machineTemplate
  (line 54) is misspelled and has no effect: the field is required only where the
  package default makes a field without \<open>omitempty\<close> required.  Under the other default a
  Spec without machineTemplate passes the structural validation.
\<close>

theorem machineTemplate_required_only_by_default:
  "is_required m fd_installStateSecretRef
   \<and> is_required m fd_machineTemplate = (m = RequiredByDefault)
   \<and> validate_Spec OptionalByDefault (sample_spec\<lparr>machineTemplate := None\<rparr>) = []
   \<and> validate_Spec OptionalByDefault (sample_spec\<lparr>installStateSecretRef := None\<rparr>)
       = [(''installStateSecretRef'', ''Required'')]
   \<and> validate_Spec RequiredByDefault (sample_spec\<lparr>machineTemplate := None\<rparr>)
       = [(''machineTemplate'', ''Required'')]"
  by (simp add: validate_defs field_defs sample_defs validate_secret_name_iff lower_alnum_def)

subsection \<open>Immutability of machineTemplate\<close>

text \<open>Where both the last accepted and the proposed Spec carry a machineTemplate, the
  rule rejects exactly the updates that change it.\<close>

lemma machineTemplate_rule_present:
  assumes "machineTemplate old = Some t" and "machineTemplate new = Some t'"
  shows "(t' \<noteq> t \<longrightarrow>
            validate_update m (Some old) new \<noteq> [] \<and>
            (''machineTemplate'', ''machineTemplate is immutable'')
              \<in> set (validate_update m (Some old) new))
       \<and> (t' = t \<longrightarrow> validate_update m (Some old) new = validate_Spec m new)
       \<and> validate_update m None new = validate_Spec m new"
  using assms by (simp add: validate_update_def machineTemplate_immutable_def)

text \<open>Where the package default makes machineTemplate required, every update that does
  not carry the last accepted machineTemplate is rejected, its removal included.\<close>

lemma machineTemplate_guard_required_default:
  assumes "machineTemplate old = Some t" and "machineTemplate new \<noteq> Some t"
  shows "validate_update RequiredByDefault (Some old) new \<noteq> []"
proof (cases "machineTemplate new")
  case None
  then show ?thesis
    by (simp add: validate_update_def validate_Spec_def check_required_def is_required_def
        has_marker_def fd_machineTemplate_def)
next
  case (Some t')
  with assms show ?thesis
    by (simp add: validate_update_def machineTemplate_immutable_def)
qed

text \<open>
  C1. The claim: with a last accepted Spec, every update whose machineTemplate differs
  from the last accepted one is rejected.  The rule of line 53 is attached to the field
  and is not evaluated when the proposed Spec has no machineTemplate; only the required
  check can reject that update, and the Required marker of line 54 is misspelled.  Under
  the package default "optional" the update that removes machineTemplate is accepted,
  and so is the next update, which sets a different machineTemplate: the stored value
  has been replaced without any failure.  Under the default "required" the removal is
  rejected, by the required check.
\<close>

theorem machineTemplate_removal_accepted:
  "validate_update OptionalByDefault (Some sample_spec) (sample_spec\<lparr>machineTemplate := None\<rparr>) = []
   \<and> validate_update OptionalByDefault (Some (sample_spec\<lparr>machineTemplate := None\<rparr>))
        (sample_spec\<lparr>machineTemplate := Some (sample_template\<lparr>nodeDeletionTimeout := Some ''10s''\<rparr>)\<rparr>) = []
   \<and> validate_update RequiredByDefault (Some sample_spec) (sample_spec\<lparr>machineTemplate := None\<rparr>)
        = [(''machineTemplate'', ''Required'')]"
  by (simp add: validate_update_def machineTemplate_immutable_def validate_defs field_defs
      sample_defs validate_secret_name_iff lower_alnum_def)

lemma template_eq_iff: "(b = a) =
     (metadata b = metadata a \<and> infrastructureRef b = infrastructureRef a \<and>
      nodeDrainTimeout b = nodeDrainTimeout a \<and>
      nodeVolumeDetachTimeout b = nodeVolumeDetachTimeout a \<and>
      nodeDeletionTimeout b = nodeDeletionTimeout a)"
  for a b :: OpenShiftControlPlaneMachineTemplate_json
  by (cases a, cases b) simp

lemma machineTemplate_immutable_iff: "(machineTemplate_immutable (Some a) (Some b) = []) = (b = a)"
  by (simp add: machineTemplate_immutable_def)

lemma nodeDrainTimeout_set_differs: "t\<lparr>nodeDrainTimeout := Some z\<rparr> \<noteq> t\<lparr>nodeDrainTimeout := None\<rparr>"
  for t :: OpenShiftControlPlaneMachineTemplate_json
  by (simp add: template_eq_iff)

lemma nodeVolumeDetachTimeout_set_differs: "t\<lparr>nodeVolumeDetachTimeout := Some z\<rparr> \<noteq> t\<lparr>nodeVolumeDetachTimeout := None\<rparr>"
  for t :: OpenShiftControlPlaneMachineTemplate_json
  by (simp add: template_eq_iff)

lemma nodeDeletionTimeout_set_differs: "t\<lparr>nodeDeletionTimeout := Some z\<rparr> \<noteq> t\<lparr>nodeDeletionTimeout := None\<rparr>"
  for t :: OpenShiftControlPlaneMachineTemplate_json
  by (simp add: template_eq_iff)

text \<open>
  C4, as amended.  The comparison of the rule is equality of the serialized values over
  all five fields of the machine template, with no exception: for each of
  nodeDrainTimeout, nodeVolumeDetachTimeout and nodeDeletionTimeout a change between
  unset and an explicit value, zero included, is a change, and the update that makes it
  is rejected.
\<close>

theorem immutability_is_plain_equality:
  "(machineTemplate_immutable (Some a) (Some b) = []) =
     (metadata b = metadata a \<and> infrastructureRef b = infrastructureRef a \<and>
      nodeDrainTimeout b = nodeDrainTimeout a \<and>
      nodeVolumeDetachTimeout b = nodeVolumeDetachTimeout a \<and>
      nodeDeletionTimeout b = nodeDeletionTimeout a)
   \<and> machineTemplate_immutable (Some (t\<lparr>nodeDrainTimeout := None\<rparr>))
         (Some (t\<lparr>nodeDrainTimeout := Some z\<rparr>)) \<noteq> []
   \<and> machineTemplate_immutable (Some (t\<lparr>nodeDrainTimeout := Some z\<rparr>))
         (Some (t\<lparr>nodeDrainTimeout := None\<rparr>)) \<noteq> []
   \<and> machineTemplate_immutable (Some (t\<lparr>nodeVolumeDetachTimeout := None\<rparr>))
         (Some (t\<lparr>nodeVolumeDetachTimeout := Some z\<rparr>)) \<noteq> []
   \<and> machineTemplate_immutable (Some (t\<lparr>nodeVolumeDetachTimeout := Some z\<rparr>))
         (Some (t\<lparr>nodeVolumeDetachTimeout := None\<rparr>)) \<noteq> []
   \<and> machineTemplate_immutable (Some (t\<lparr>nodeDeletionTimeout := None\<rparr>))
         (Some (t\<lparr>nodeDeletionTimeout := Some z\<rparr>)) \<noteq> []
   \<and> machineTemplate_immutable (Some (t\<lparr>nodeDeletionTimeout := Some z\<rparr>))
         (Some (t\<lparr>nodeDeletionTimeout := None\<rparr>)) \<noteq> []
   \<and> validate_update m (Some (s\<lparr>machineTemplate := Some (t\<lparr>nodeDrainTimeout := None\<rparr>)\<rparr>))
         (s\<lparr>machineTemplate := Some (t\<lparr>nodeDrainTimeout := Some z\<rparr>)\<rparr>) \<noteq> []
   \<and> validate_update m (Some (s\<lparr>machineTemplate := Some (t\<lparr>nodeVolumeDetachTimeout := None\<rparr>)\<rparr>))
         (s\<lparr>machineTemplate := Some (t\<lparr>nodeVolumeDetachTimeout := Some z\<rparr>)\<rparr>) \<noteq> []
   \<and> validate_update m (Some (s\<lparr>machineTemplate := Some (t\<lparr>nodeDeletionTimeout := None\<rparr>)\<rparr>))
         (s\<lparr>machineTemplate := Some (t\<lparr>nodeDeletionTimeout := Some z\<rparr>)\<rparr>) \<noteq> []"
proof (intro conjI)
  show "(machineTemplate_immutable (Some a) (Some b) = []) =
     (metadata b = metadata a \<and> infrastructureRef b = infrastructureRef a \<and>
      nodeDrainTimeout b = nodeDrainTimeout a \<and>
      nodeVolumeDetachTimeout b = nodeVolumeDetachTimeout a \<and>
      nodeDeletionTimeout b = nodeDeletionTimeout a)"
    unfolding machineTemplate_immutable_iff by (rule template_eq_iff)
qed (simp_all add: validate_update_def machineTemplate_immutable_def
    nodeDrainTimeout_set_differs nodeVolumeDetachTimeout_set_differs
    nodeDeletionTimeout_set_differs nodeDrainTimeout_set_differs[symmetric]
    nodeVolumeDetachTimeout_set_differs[symmetric] nodeDeletionTimeout_set_differs[symmetric])

text \<open>The claim as stated fails: setting nodeDrainTimeout, or nodeVolumeDetachTimeout,
  from unset to the explicit zero \<open>0s\<close> is rejected as a change of machineTemplate.\<close>

theorem unset_to_zero_timeout_rejected:
  "machineTemplate_immutable (Some sample_template)
       (Some (sample_template\<lparr>nodeDrainTimeout := Some ''0s''\<rparr>))
     = [(''machineTemplate'', ''machineTemplate is immutable'')]
   \<and> machineTemplate_immutable (Some sample_template)
       (Some (sample_template\<lparr>nodeVolumeDetachTimeout := Some ''0s''\<rparr>))
     = [(''machineTemplate'', ''machineTemplate is immutable'')]
   \<and> validate_update RequiredByDefault (Some sample_spec)
       (sample_spec\<lparr>machineTemplate := Some (sample_template\<lparr>nodeDrainTimeout := Some ''0s''\<rparr>)\<rparr>)
     = [(''machineTemplate'', ''machineTemplate is immutable'')]"
  by (simp add: validate_update_def machineTemplate_immutable_def validate_defs field_defs
      sample_defs validate_secret_name_iff lower_alnum_def)

subsection \<open>The namespace of the infrastructure reference\<close>

text \<open>
  C9, as amended.  The structural validation requires the four keys of
  infrastructureRef (kind, namespace, name, apiVersion) to be present and checks nothing
  else of them: it accepts an infrastructure reference exactly when the four keys are
  present, and the outcome of validating a resource does not depend on the namespace of
  the resource.  That the two namespaces are equal is an obligation line 126 puts on
  the author of the resource; no rule of the schema compares them.
\<close>

theorem infrastructureRef_namespace_unchecked:
  "(validate_InfrastructureReference m r = []) =
     (ref_kind r \<noteq> None \<and> ref_namespace r \<noteq> None \<and> ref_name r \<noteq> None \<and> ref_apiVersion r \<noteq> None)
   \<and> validate_OpenShiftControlPlane m (cp\<lparr>meta_namespace := ns\<rparr>)
       = validate_OpenShiftControlPlane m cp"
  by (simp add: validate_OpenShiftControlPlane_def validate_InfrastructureReference_def
      check_required_def is_required_def has_marker_def field_defs)

text \<open>The claim as stated fails: the sample resource lives in namespace \<open>tenant-a\<close>, its
  infrastructure reference names \<open>openshift-cluster-api\<close>, and it passes validation
  under either package default.\<close>

theorem foreign_namespace_accepted:
  "validate_OpenShiftControlPlane RequiredByDefault sample_cp = []
   \<and> validate_OpenShiftControlPlane OptionalByDefault sample_cp = []
   \<and> meta_namespace sample_cp = ''tenant-a''
   \<and> infrastructureRef_namespace sample_cp = Some ''openshift-cluster-api''"
  by (simp add: sample_cp_valid) (simp add: infrastructureRef_namespace_def sample_defs)

subsection \<open>The manifests selector in the struct\<close>

text \<open>
  C10. ManifestsSelector is a field of struct type, not a pointer (line 73).  A Spec
  serialized without the key manifestsSelector and the same Spec serialized with the
  empty selector (the JSON object with no key) decode to the same struct, the selector
  of zero values, so no function of the struct tells them apart.
\<close>

theorem omitted_selector_is_empty_selector:
  "decode_Spec parseDuration (j\<lparr>manifestsSelector := None\<rparr>)
     = decode_Spec parseDuration (j\<lparr>manifestsSelector := Some empty_selector\<rparr>)
   \<and> (\<forall>f. f (decode_Spec parseDuration (j\<lparr>manifestsSelector := None\<rparr>))
          = f (decode_Spec parseDuration (j\<lparr>manifestsSelector := Some empty_selector\<rparr>)))
   \<and> decode_LabelSelector None = decode_LabelSelector (Some empty_selector)
   \<and> decode_LabelSelector None = \<lparr>MatchLabels = None, MatchExpressions = None\<rparr>"
  by (simp add: decode_Spec_def decode_LabelSelector_def empty_selector_def split: option.split)

text \<open>The sample Spec decodes, and its selector is the zero value either way.\<close>

lemma sample_spec_decodes:
  "map_option ManifestsSelector (decode_Spec sample_parseDuration sample_spec)
     = Some \<lparr>MatchLabels = None, MatchExpressions = None\<rparr>
   \<and> map_option ManifestsSelector
       (decode_Spec sample_parseDuration (sample_spec\<lparr>manifestsSelector := Some empty_selector\<rparr>))
     = Some \<lparr>MatchLabels = None, MatchExpressions = None\<rparr>"
  by (simp add: decode_Spec_def decode_MachineTemplate_def decode_Duration_def
      decode_LabelSelector_def empty_selector_def sample_defs)

subsection \<open>The condition reporter\<close>

lemma setCondition_types:
  "set (map cond_type (setCondition now ty st rs msg gen cs)) = insert ty (set (map cond_type cs))"
  by (induction cs) auto

lemma setCondition_order:
  "map cond_type (setCondition now ty st rs msg gen cs) =
     (if ty \<in> set (map cond_type cs) then map cond_type cs else map cond_type cs @ [ty])"
  by (induction cs) auto

lemma setCondition_distinct:
  "distinct (map cond_type cs) \<Longrightarrow>
   distinct (map cond_type (setCondition now ty st rs msg gen cs))"
proof (induction cs)
  case Nil
  show ?case by simp
next
  case (Cons c cs)
  have "cond_type c \<notin> cond_type ` set (setCondition now ty st rs msg gen cs)"
    if "cond_type c \<noteq> ty"
    using Cons.prems that setCondition_types[of now ty st rs msg gen cs] by auto
  with Cons show ?case by auto
qed

lemma setCondition_length:
  "length (setCondition now ty st rs msg gen cs) =
     (if ty \<in> set (map cond_type cs) then length cs else Suc (length cs))"
  by (induction cs) auto

lemma setCondition_find_same:
  "\<exists>c'. findCondition ty (setCondition now ty st rs msg gen cs) = Some c' \<and>
        cond_type c' = ty \<and> cond_status c' = st \<and> cond_reason c' = rs \<and>
        cond_message c' = msg \<and> observedGeneration c' = gen \<and>
        lastTransitionTime c' =
          (case findCondition ty cs of
             None \<Rightarrow> now
           | Some c \<Rightarrow> if cond_status c = st then lastTransitionTime c else now)"
  by (induction cs) (auto simp: findCondition_def)

lemma setCondition_find_other:
  "ty' \<noteq> ty \<Longrightarrow>
   findCondition ty' (setCondition now ty st rs msg gen cs) = findCondition ty' cs"
  by (induction cs) (auto simp: findCondition_def)

lemma setCondition_twice:
  "map_option lastTransitionTime
     (findCondition ty (setCondition now' ty st rs msg gen' (setCondition now ty st rs msg gen cs)))
   = map_option lastTransitionTime (findCondition ty (setCondition now ty st rs msg gen cs))"
proof -
  obtain c1 where c1:
    "findCondition ty (setCondition now ty st rs msg gen cs) = Some c1" "cond_status c1 = st"
    using setCondition_find_same[of ty now st rs msg gen cs] by blast
  obtain c2 where c2:
    "findCondition ty (setCondition now' ty st rs msg gen' (setCondition now ty st rs msg gen cs))
       = Some c2"
    "lastTransitionTime c2 =
       (case findCondition ty (setCondition now ty st rs msg gen cs) of
          None \<Rightarrow> now'
        | Some c \<Rightarrow> if cond_status c = st then lastTransitionTime c else now')"
    using setCondition_find_same[of ty now' st rs msg gen' "setCondition now ty st rs msg gen cs"]
    by blast
  show ?thesis using c1 c2 by simp
qed

text \<open>
  C8. setCondition upserts by type: a condition of a type the list holds is replaced in
  its place, one of a new type is appended, so the list grows by one only when the type
  was absent, and a list with one condition per type keeps one per type.  The condition of the type written carries
  the status, reason, message and observed generation given; its transition time is the
  one it had when a condition of the type existed with the same status, and the current
  time otherwise.  Conditions of other types are left as they were.  A second call with
  the same type, status, reason and message (at any later time, for any generation)
  leaves the transition time as the first call set it.
\<close>

theorem setCondition_upsert:
  "(distinct (map cond_type cs) \<longrightarrow>
      distinct (map cond_type (setCondition now ty st rs msg gen cs)))
   \<and> map cond_type (setCondition now ty st rs msg gen cs) =
       (if ty \<in> set (map cond_type cs) then map cond_type cs else map cond_type cs @ [ty])
   \<and> length (setCondition now ty st rs msg gen cs) =
       (if ty \<in> set (map cond_type cs) then length cs else Suc (length cs))
   \<and> (\<exists>c'. findCondition ty (setCondition now ty st rs msg gen cs) = Some c' \<and>
        cond_type c' = ty \<and> cond_status c' = st \<and> cond_reason c' = rs \<and>
        cond_message c' = msg \<and> observedGeneration c' = gen \<and>
        lastTransitionTime c' =
          (case findCondition ty cs of
             None \<Rightarrow> now
           | Some c \<Rightarrow> if cond_status c = st then lastTransitionTime c else now))
   \<and> (\<forall>ty'. ty' \<noteq> ty \<longrightarrow>
        findCondition ty' (setCondition now ty st rs msg gen cs) = findCondition ty' cs)
   \<and> map_option lastTransitionTime
       (findCondition ty
          (setCondition now' ty st rs msg gen' (setCondition now ty st rs msg gen cs)))
     = map_option lastTransitionTime (findCondition ty (setCondition now ty st rs msg gen cs))"
  using setCondition_distinct [of cs now ty st rs msg gen]
    setCondition_order [of now ty st rs msg gen cs]
    setCondition_length [of now ty st rs msg gen cs]
    setCondition_find_same [of ty now st rs msg gen cs]
    setCondition_find_other [of _ ty now st rs msg gen cs]
    setCondition_twice [of ty now' st rs msg gen' now gen cs]
  by (intro conjI impI allI) blast+

theorem setCondition_upsert_witness:
  "distinct (map cond_type sample_conditions)
   \<and> distinct (map cond_type
        (setCondition 200 ''MachinesProvisioned'' ConditionTrue ''Created'' ''machines created'' 2
           sample_conditions))
   \<and> length (setCondition 200 ''MachinesProvisioned'' ConditionTrue ''Created'' ''machines created'' 2
        sample_conditions) = 2
   \<and> findCondition ''InstallStateResolved''
        (setCondition 200 ''MachinesProvisioned'' ConditionTrue ''Created'' ''machines created'' 2
           sample_conditions)
     = findCondition ''InstallStateResolved'' sample_conditions"
  using setCondition_upsert [of sample_conditions 200 "''MachinesProvisioned''" ConditionTrue
      "''Created''" "''machines created''" 2 300 3]
  by (simp add: sample_conditions_def findCondition_def)

end
